theory Spec2Isabelle
  imports Complex_Main "HOL-Library.AList"
begin

section \<open>Python strings\<close>

text \<open>
  Strings are byte lists; the model covers ASCII text. The functions below follow the
  Python string methods the services call: \<^verbatim>\<open>str(int)\<close>, \<^verbatim>\<open>lower\<close>,
  \<^verbatim>\<open>startswith\<close>, \<^verbatim>\<open>endswith\<close>, \<^verbatim>\<open>strip\<close>, \<^verbatim>\<open>split\<close>,
  \<^verbatim>\<open>replace\<close>, \<^verbatim>\<open>join\<close> and \<^verbatim>\<open>int(s, base)\<close>.
\<close>

fun str_nat :: "nat \<Rightarrow> string" where
  "str_nat n =
     (if n < 10 then [''0123456789'' ! n]
      else str_nat (n div 10) @ [''0123456789'' ! (n mod 10)])"

declare str_nat.simps [simp del]

definition str_int :: "int \<Rightarrow> string" where
  "str_int i = (if i < 0 then ''-'' @ str_nat (nat (- i)) else str_nat (nat i))"

definition lower_char :: "char \<Rightarrow> char" where
  "lower_char c =
     (case map_of (zip ''ABCDEFGHIJKLMNOPQRSTUVWXYZ'' ''abcdefghijklmnopqrstuvwxyz'') c of
        Some l \<Rightarrow> l
      | None \<Rightarrow> c)"

definition str_lower :: "string \<Rightarrow> string" where
  "str_lower s = map lower_char s"

definition startswith :: "string \<Rightarrow> string \<Rightarrow> bool" where
  "startswith s p \<longleftrightarrow> take (length p) s = p"

definition endswith :: "string \<Rightarrow> string \<Rightarrow> bool" where
  "endswith s p \<longleftrightarrow> length p \<le> length s \<and> drop (length s - length p) s = p"

text \<open>The characters \<^verbatim>\<open>str.isspace\<close> accepts, within ASCII.\<close>

definition is_space :: "char \<Rightarrow> bool" where
  "is_space c \<longleftrightarrow>
     (let n = (of_char c :: nat) in (9 \<le> n \<and> n \<le> 13) \<or> (28 \<le> n \<and> n \<le> 32))"

definition str_strip :: "string \<Rightarrow> string" where
  "str_strip s = rev (dropWhile is_space (rev (dropWhile is_space s)))"

text \<open>\<^verbatim>\<open>s.split(c)\<close> for a one-character separator: the result is never empty.\<close>

fun str_split :: "char \<Rightarrow> string \<Rightarrow> string list" where
  "str_split c [] = [[]]"
| "str_split c (x # xs) =
     (if x = c then [] # str_split c xs
      else (case str_split c xs of [] \<Rightarrow> [[x]] | w # ws \<Rightarrow> (x # w) # ws))"

text \<open>\<^verbatim>\<open>s.split(c, 1)\<close> when \<open>c\<close> occurs in \<open>s\<close>: the parts around the first \<open>c\<close>.\<close>

definition str_split_first :: "char \<Rightarrow> string \<Rightarrow> string \<times> string" where
  "str_split_first c s = (takeWhile (\<lambda>x. x \<noteq> c) s, drop 1 (dropWhile (\<lambda>x. x \<noteq> c) s))"

text \<open>
  \<^verbatim>\<open>s.replace(old, new)\<close> for a non-empty \<open>old\<close>: every occurrence, leftmost first,
  not overlapping.
\<close>

function str_replace :: "string \<Rightarrow> string \<Rightarrow> string \<Rightarrow> string" where
  "str_replace old new s =
     (if s = [] then []
      else if old \<noteq> [] \<and> take (length old) s = old
        then new @ str_replace old new (drop (length old) s)
      else hd s # str_replace old new (tl s))"
  by pat_completeness auto
termination
  by (relation "measure (\<lambda>(old, new, s). length s)") auto

declare str_replace.simps [simp del]

fun str_join :: "string \<Rightarrow> string list \<Rightarrow> string" where
  "str_join sep [] = []"
| "str_join sep [x] = x"
| "str_join sep (x # y # ys) = x @ sep @ str_join sep (y # ys)"

subsection \<open>\<^verbatim>\<open>int(s, base)\<close>\<close>

text \<open>
  CPython's integer parser, for an explicit base of 10 or 16: surrounding white space
  (that of C's \<^verbatim>\<open>isspace\<close>) is dropped, one sign is allowed, base 16 allows a
  \<^verbatim>\<open>0x\<close> prefix (and one underscore after it), and the digits may be separated by
  single underscores. \<open>None\<close> is \<^verbatim>\<open>ValueError\<close>.
\<close>

definition c_isspace :: "char \<Rightarrow> bool" where
  "c_isspace c \<longleftrightarrow> (let n = (of_char c :: nat) in (9 \<le> n \<and> n \<le> 13) \<or> n = 32)"

definition digit_value :: "char \<Rightarrow> nat option" where
  "digit_value c =
     (let n = (of_char c :: nat) in
      if 48 \<le> n \<and> n \<le> 57 then Some (n - 48)
      else if 97 \<le> n \<and> n \<le> 122 then Some (n - 87)
      else if 65 \<le> n \<and> n \<le> 90 then Some (n - 55)
      else None)"

text \<open>
  The digit scan: \<open>prev_us\<close> says that the previous character was an underscore, \<open>acc\<close>
  is the value read so far. A doubled or trailing underscore and any other character
  are errors.
\<close>

fun scan_digits :: "nat \<Rightarrow> bool \<Rightarrow> nat \<Rightarrow> string \<Rightarrow> nat option" where
  "scan_digits base prev_us acc [] = (if prev_us then None else Some acc)"
| "scan_digits base prev_us acc (c # cs) =
     (if c = CHR ''_'' then (if prev_us then None else scan_digits base True acc cs)
      else (case digit_value c of
              None \<Rightarrow> None
            | Some d \<Rightarrow> if d < base then scan_digits base False (acc * base + d) cs else None))"

definition py_int :: "nat \<Rightarrow> string \<Rightarrow> int option" where
  "py_int base s =
     (let s1 = rev (dropWhile c_isspace (rev (dropWhile c_isspace s)));
          neg = startswith s1 ''-'' \<and> s1 \<noteq> [];
          s2 = (if s1 \<noteq> [] \<and> (hd s1 = CHR ''-'' \<or> hd s1 = CHR ''+'') then tl s1 else s1);
          s3 = (if base = 16 \<and> (startswith s2 ''0x'' \<or> startswith s2 ''0X'')
                then (let r = drop 2 s2 in if startswith r ''_'' then drop 1 r else r)
                else s2)
      in if s3 = [] \<or> hd s3 = CHR ''_'' then None
         else (case scan_digits base False 0 s3 of
                 None \<Rightarrow> None
               | Some n \<Rightarrow> Some (if neg then - int n else int n)))"

section \<open>Exceptions\<close>

datatype py_exception =
    KeyError string
  | ValueError string
  | OSError string
  | RequestException string
  | LibraryError string

text \<open>\<^verbatim>\<open>str(e)\<close>: a \<^verbatim>\<open>KeyError\<close> prints its key quoted.\<close>

fun str_exn :: "py_exception \<Rightarrow> string" where
  "str_exn (KeyError k) = [CHR 39] @ k @ [CHR 39]"
| "str_exn (ValueError m) = m"
| "str_exn (OSError m) = m"
| "str_exn (RequestException m) = m"
| "str_exn (LibraryError m) = m"

section \<open>The process and its file system\<close>

text \<open>
  The operating-system state the services touch: a flat table from absolute path strings
  to nodes, the working directory, \<^verbatim>\<open>sys.argv\<close> and the home directory. Paths are
  compared as strings (no normalisation of \<^verbatim>\<open>..\<close> or doubled slashes), a relative
  path is joined to the working directory, and writing a file does not look at its parent
  directory. \<open>dir_size\<close> is the size \<^verbatim>\<open>stat\<close> reports for a directory.
\<close>

datatype node = File string | Dir

record os_state =
  nodes :: "(string \<times> node) list"
  cwd :: string
  argv :: "string list"
  home :: string
  dir_size :: int

text \<open>\<^verbatim>\<open>posixpath.join(a, b)\<close>.\<close>

definition os_path_join :: "string \<Rightarrow> string \<Rightarrow> string" where
  "os_path_join a b =
     (if startswith b ''/'' then b
      else if a = [] \<or> endswith a ''/'' then a @ b
      else a @ ''/'' @ b)"

text \<open>\<^verbatim>\<open>posixpath.basename(p)\<close>: what follows the last slash.\<close>

definition os_path_basename :: "string \<Rightarrow> string" where
  "os_path_basename p = rev (takeWhile (\<lambda>c. c \<noteq> CHR ''/'') (rev p))"

definition resolve :: "os_state \<Rightarrow> string \<Rightarrow> string" where
  "resolve os p = os_path_join (cwd os) p"

definition node_at :: "os_state \<Rightarrow> string \<Rightarrow> node option" where
  "node_at os p = map_of (nodes os) (resolve os p)"

definition os_path_exists :: "os_state \<Rightarrow> string \<Rightarrow> bool" where
  "os_path_exists os p \<longleftrightarrow> node_at os p \<noteq> None"

definition os_path_isfile :: "os_state \<Rightarrow> string \<Rightarrow> bool" where
  "os_path_isfile os p \<longleftrightarrow> (case node_at os p of Some (File b) \<Rightarrow> True | _ \<Rightarrow> False)"

definition os_path_isdir :: "os_state \<Rightarrow> string \<Rightarrow> bool" where
  "os_path_isdir os p \<longleftrightarrow> node_at os p = Some Dir"

definition os_path_getsize :: "os_state \<Rightarrow> string \<Rightarrow> py_exception + int" where
  "os_path_getsize os p =
     (case node_at os p of
        None \<Rightarrow> Inl (OSError (''No such file or directory: '' @ p))
      | Some Dir \<Rightarrow> Inr (dir_size os)
      | Some (File b) \<Rightarrow> Inr (int (length b)))"

text \<open>\<^verbatim>\<open>os.remove\<close> deletes a regular file and raises on anything else.\<close>

definition os_remove :: "os_state \<Rightarrow> string \<Rightarrow> py_exception + os_state" where
  "os_remove os p =
     (case node_at os p of
        None \<Rightarrow> Inl (OSError (''No such file or directory: '' @ p))
      | Some Dir \<Rightarrow> Inl (OSError (''Is a directory: '' @ p))
      | Some (File b) \<Rightarrow> Inr (os\<lparr>nodes := AList.delete (resolve os p) (nodes os)\<rparr>))"

text \<open>\<^verbatim>\<open>os.makedirs(p, exist_ok=True)\<close>: raises when \<open>p\<close> is a regular file.\<close>

definition os_makedirs :: "os_state \<Rightarrow> string \<Rightarrow> py_exception + os_state" where
  "os_makedirs os p =
     (case node_at os p of
        None \<Rightarrow> Inr (os\<lparr>nodes := AList.update (resolve os p) Dir (nodes os)\<rparr>)
      | Some Dir \<Rightarrow> Inr os
      | Some (File b) \<Rightarrow> Inl (OSError (''File exists: '' @ p)))"

definition os_chdir :: "os_state \<Rightarrow> string \<Rightarrow> py_exception + os_state" where
  "os_chdir os p =
     (if os_path_isdir os p then Inr (os\<lparr>cwd := resolve os p\<rparr>)
      else Inl (OSError (''Not a directory: '' @ p)))"

text \<open>
  \<^verbatim>\<open>os.listdir(d)\<close>: the names directly under \<open>d\<close>, in table order.
\<close>

definition child_name :: "string \<Rightarrow> string \<Rightarrow> string option" where
  "child_name d p =
     (let pre = (if endswith d ''/'' then d else d @ ''/'') in
      if startswith p pre \<and> length pre < length p \<and> CHR ''/'' \<notin> set (drop (length pre) p)
      then Some (drop (length pre) p) else None)"

definition os_listdir :: "os_state \<Rightarrow> string \<Rightarrow> py_exception + string list" where
  "os_listdir os d =
     (if os_path_isdir os d
      then Inr (List.map_filter (\<lambda>(p, n). child_name (resolve os d) p) (nodes os))
      else Inl (OSError (''Not a directory: '' @ d)))"

text \<open>\<^verbatim>\<open>open(p, 'r').read()\<close> in text mode, with universal newlines.\<close>

fun universal_newlines :: "string \<Rightarrow> string" where
  "universal_newlines [] = []"
| "universal_newlines [c] = (if c = CHR 0x0D then [CHR 0x0A] else [c])"
| "universal_newlines (c # d # cs) =
     (if c = CHR 0x0D \<and> d = CHR 0x0A then CHR 0x0A # universal_newlines cs
      else if c = CHR 0x0D then CHR 0x0A # universal_newlines (d # cs)
      else c # universal_newlines (d # cs))"

definition read_text :: "os_state \<Rightarrow> string \<Rightarrow> py_exception + string" where
  "read_text os p =
     (case node_at os p of
        Some (File b) \<Rightarrow> Inr (universal_newlines b)
      | Some Dir \<Rightarrow> Inl (OSError (''Is a directory: '' @ p))
      | None \<Rightarrow> Inl (OSError (''No such file or directory: '' @ p)))"

text \<open>
  \<^verbatim>\<open>open(p, 'wb')\<close> creates or truncates, \<^verbatim>\<open>open(p, 'ab')\<close> creates or keeps;
  both raise on a directory. \<^verbatim>\<open>f.write(chunk)\<close> appends to the file at the path.
\<close>

definition open_write :: "os_state \<Rightarrow> string \<Rightarrow> bool \<Rightarrow> py_exception + os_state" where
  "open_write os p append_mode =
     (case node_at os p of
        Some Dir \<Rightarrow> Inl (OSError (''Is a directory: '' @ p))
      | Some (File b) \<Rightarrow>
          Inr (if append_mode then os
               else os\<lparr>nodes := AList.update (resolve os p) (File []) (nodes os)\<rparr>)
      | None \<Rightarrow> Inr (os\<lparr>nodes := AList.update (resolve os p) (File []) (nodes os)\<rparr>))"

definition file_write :: "os_state \<Rightarrow> string \<Rightarrow> string \<Rightarrow> os_state" where
  "file_write os p chunk =
     (case node_at os p of
        Some (File b) \<Rightarrow> os\<lparr>nodes := AList.update (resolve os p) (File (b @ chunk)) (nodes os)\<rparr>
      | _ \<Rightarrow> os)"

section \<open>Tasks and the registry (download\_service.py)\<close>

datatype status = Pending | Downloading | Completed | Failed | Paused

text \<open>
  \<^verbatim>\<open>DownloadTask\<close>. Python floats (\<open>progress\<close>, \<open>speed\<close>, the clock) are idealised as
  reals.
\<close>

record download_task =
  url :: string
  filename :: string
  destination :: string
  status :: status
  progress :: real
  downloaded_bytes :: int
  total_bytes :: int
  speed :: real
  error_message :: string
  start_time :: "real option"
  end_time :: "real option"

definition new_task :: "string \<Rightarrow> string \<Rightarrow> string \<Rightarrow> download_task" where
  "new_task u f d =
     \<lparr>url = u, filename = f, destination = d, status = Pending, progress = 0,
      downloaded_bytes = 0, total_bytes = 0, speed = 0, error_message = [],
      start_time = None, end_time = None\<rparr>"

definition get_output_path :: "download_task \<Rightarrow> string" where
  "get_output_path t = os_path_join (destination t) (filename t)"

text \<open>\<^verbatim>\<open>NSZService\<close> holds the path of the key file, if one was found.\<close>

record nsz_service =
  keys_path :: "string option"

text \<open>
  \<^verbatim>\<open>DownloadService\<close>. \<open>downloads\<close> is the dictionary in insertion order.
  \<open>threads_started\<close> lists the worker threads started so far by the task id they were
  given; \<open>download_threads\<close> maps a task id to the number of its latest thread.
  \<open>status_log\<close> and \<open>progress_log\<close> record the calls of \<^verbatim>\<open>_notify_status\<close> and
  \<^verbatim>\<open>_notify_progress\<close>: what every registered callback is called with (a callback that
  raises is ignored by the source).
\<close>

record download_service =
  downloads :: "(string \<times> download_task) list"
  active_downloads :: int
  max_concurrent_downloads :: int
  download_threads :: "(string \<times> nat) list"
  threads_started :: "string list"
  status_log :: "(string \<times> string \<times> string) list"
  progress_log :: "(string \<times> download_task) list"
  nsz :: nsz_service

definition notify_progress :: "download_service \<Rightarrow> string \<Rightarrow> download_task \<Rightarrow> download_service" where
  "notify_progress s task_id task = s\<lparr>progress_log := progress_log s @ [(task_id, task)]\<rparr>"

definition notify_status :: "download_service \<Rightarrow> string \<Rightarrow> string \<Rightarrow> string \<Rightarrow> download_service" where
  "notify_status s task_id kind message = s\<lparr>status_log := status_log s @ [(task_id, kind, message)]\<rparr>"

text \<open>\<^verbatim>\<open>int(x)\<close> on a float truncates towards zero.\<close>

definition py_trunc :: "real \<Rightarrow> int" where
  "py_trunc x = (if 0 \<le> x then \<lfloor>x\<rfloor> else \<lceil>x\<rceil>)"

text \<open>
  \<^verbatim>\<open>add_download\<close>; \<open>now\<close> is the reading of \<^verbatim>\<open>time.time()\<close>. A failure of
  \<^verbatim>\<open>os.makedirs\<close> leaves the service as it was.
\<close>

definition add_download ::
  "real \<Rightarrow> string \<Rightarrow> string \<Rightarrow> string \<Rightarrow> download_service \<times> os_state
     \<Rightarrow> py_exception + (string \<times> download_service \<times> os_state)" where
  "add_download now u f d = (\<lambda>(s, os).
     (let task_id = f @ ''_'' @ str_int (py_trunc now) in
      case os_makedirs os d of
        Inl e \<Rightarrow> Inl e
      | Inr os' \<Rightarrow>
          (let task = new_task u f d;
               s1 = s\<lparr>downloads := AList.update task_id task (downloads s)\<rparr>;
               s2 = notify_status s1 task_id ''added'' (''Added download: '' @ f)
           in Inr (task_id, s2, os'))))"

text \<open>
  \<^verbatim>\<open>start_download\<close>. Starting the thread is recorded in \<open>threads_started\<close>; the
  worker itself (\<open>download_worker\<close> below) sets the status.
\<close>

definition start_download :: "download_service \<Rightarrow> string \<Rightarrow> bool \<times> download_service" where
  "start_download s task_id =
     (case map_of (downloads s) task_id of
        None \<Rightarrow> (False, s)
      | Some task \<Rightarrow>
          if status task \<noteq> Pending then (False, s)
          else if active_downloads s \<ge> max_concurrent_downloads s then (False, s)
          else (True, s\<lparr>threads_started := threads_started s @ [task_id],
                         download_threads :=
                           AList.update task_id (length (threads_started s)) (download_threads s),
                         active_downloads := active_downloads s + 1\<rparr>))"

text \<open>\<^verbatim>\<open>start_all_downloads\<close>: the loop over \<^verbatim>\<open>self.downloads.items()\<close>.\<close>

fun start_all_loop ::
  "(string \<times> download_task) list \<Rightarrow> int \<times> download_service \<Rightarrow> int \<times> download_service" where
  "start_all_loop [] (started, s) = (started, s)"
| "start_all_loop ((task_id, task) # rest) (started, s) =
     (if status task = Pending \<and> active_downloads s < max_concurrent_downloads s
      then (case start_download s task_id of
              (True, s') \<Rightarrow> start_all_loop rest (started + 1, s')
            | (False, s') \<Rightarrow> start_all_loop rest (started, s'))
      else start_all_loop rest (started, s))"

definition start_all_downloads :: "download_service \<Rightarrow> int \<times> download_service" where
  "start_all_downloads s = start_all_loop (downloads s) (0, s)"

definition update_task ::
  "download_service \<Rightarrow> string \<Rightarrow> (download_task \<Rightarrow> download_task) \<Rightarrow> download_service" where
  "update_task s task_id f =
     s\<lparr>downloads := map (\<lambda>(k, t). if k = task_id then (k, f t) else (k, t)) (downloads s)\<rparr>"

definition pause_download :: "download_service \<Rightarrow> string \<Rightarrow> download_service" where
  "pause_download s task_id =
     (case map_of (downloads s) task_id of
        None \<Rightarrow> s
      | Some task \<Rightarrow>
          if status task = Downloading
          then notify_status (update_task s task_id (\<lambda>t. t\<lparr>status := Paused\<rparr>))
                 task_id ''paused'' ''Download paused''
          else s)"

definition resume_download :: "download_service \<Rightarrow> string \<Rightarrow> download_service" where
  "resume_download s task_id =
     (case map_of (downloads s) task_id of
        None \<Rightarrow> s
      | Some task \<Rightarrow>
          if status task = Paused
          then snd (start_download (update_task s task_id (\<lambda>t. t\<lparr>status := Pending\<rparr>)) task_id)
          else s)"



fun first_pending :: "(string \<times> download_task) list \<Rightarrow> string option" where
  "first_pending [] = None"
| "first_pending ((task_id, task) # rest) =
     (if status task = Pending then Some task_id else first_pending rest)"

text \<open>\<^verbatim>\<open>_start_next_pending_download\<close>.\<close>

definition start_next_pending_download :: "download_service \<Rightarrow> download_service" where
  "start_next_pending_download s =
     (if active_downloads s < max_concurrent_downloads s
      then (case first_pending (downloads s) of
              None \<Rightarrow> s
            | Some task_id \<Rightarrow> snd (start_download s task_id))
      else s)"

definition clear_completed_downloads :: "download_service \<Rightarrow> download_service" where
  "clear_completed_downloads s =
     (let to_remove = map fst (filter (\<lambda>(k, t). status t = Completed \<or> status t = Failed)
                                 (downloads s))
      in fold (\<lambda>task_id s'. s'\<lparr>downloads := AList.delete task_id (downloads s'),
                                  download_threads := AList.delete task_id (download_threads s')\<rparr>)
           to_remove s)"

section \<open>Key files and decompression (nsz\_service.py)\<close>

definition rstrip_slash :: "string \<Rightarrow> string" where
  "rstrip_slash s = rev (dropWhile (\<lambda>c. c = CHR ''/'') (rev s))"

text \<open>\<^verbatim>\<open>os.path.expanduser\<close> for the current user's \<^verbatim>\<open>~\<close>.\<close>

definition expanduser :: "os_state \<Rightarrow> string \<Rightarrow> string" where
  "expanduser os p =
     (if p = ''~'' \<or> startswith p ''~/''
      then (let r = rstrip_slash (home os) @ drop 1 p in if r = [] then ''/'' else r)
      else p)"

text \<open>\<^verbatim>\<open>NSZService.__init__\<close> with \<^verbatim>\<open>_setup_keys_environment\<close>.\<close>

definition setup_keys_environment :: "os_state \<Rightarrow> nsz_service" where
  "setup_keys_environment os =
     (let default_keys_paths =
            [expanduser os ''~/.switch/prod.keys'',
             os_path_join (cwd os) ''keys.txt'',
             os_path_join (cwd os) ''prod.keys'']
      in \<lparr>keys_path = List.find (os_path_exists os) default_keys_paths\<rparr>)"

text \<open>\<^verbatim>\<open>DownloadService.__init__\<close>.\<close>

definition init_service :: "os_state \<Rightarrow> download_service" where
  "init_service os =
     \<lparr>downloads = [], active_downloads = 0, max_concurrent_downloads = 3,
      download_threads = [], threads_started = [], status_log = [], progress_log = [],
      nsz = setup_keys_environment os\<rparr>"

text \<open>
  \<^verbatim>\<open>_validate_keys_file\<close>: the test applied to one line of the file, the loop that
  counts the lines passing it, and the function itself.
\<close>

definition valid_key_line :: "string \<Rightarrow> bool" where
  "valid_key_line line0 =
     (let line = str_strip line0 in
      if CHR ''='' \<in> set line \<and> length line > 10
      then (case str_split_first (CHR ''='') line of
              (key_name, key_value) \<Rightarrow>
                if length key_value = 32
                then (case py_int 16 key_value of Some v \<Rightarrow> True | None \<Rightarrow> False)
                else False)
      else False)"

fun count_valid_lines :: "string list \<Rightarrow> nat \<Rightarrow> nat" where
  "count_valid_lines [] valid_lines = valid_lines"
| "count_valid_lines (line # rest) valid_lines =
     count_valid_lines rest (if valid_key_line line then valid_lines + 1 else valid_lines)"

definition validate_keys_file :: "os_state \<Rightarrow> string \<Rightarrow> bool" where
  "validate_keys_file os keys_file =
     (case read_text os keys_file of
        Inl e \<Rightarrow> False
      | Inr content \<Rightarrow>
          (let lines = str_split (CHR 0x0A) (str_strip content)
           in count_valid_lines lines 0 > 0))"

text \<open>
  \<^verbatim>\<open>shutil.copy2(src, dst)\<close>: into the directory when \<open>dst\<close> is one.
\<close>

definition shutil_copy2 :: "os_state \<Rightarrow> string \<Rightarrow> string \<Rightarrow> py_exception + os_state" where
  "shutil_copy2 os src dst =
     (case node_at os src of
        Some (File b) \<Rightarrow>
          (let target = (if os_path_isdir os dst then os_path_join dst (os_path_basename src)
                         else dst)
           in if resolve os target = resolve os src
              then Inl (OSError (''Same file: '' @ src))
              else if os_path_isdir os target
              then Inl (OSError (''Is a directory: '' @ target))
              else Inr (os\<lparr>nodes := AList.update (resolve os target) (File b) (nodes os)\<rparr>))
      | Some Dir \<Rightarrow> Inl (OSError (''Is a directory: '' @ src))
      | None \<Rightarrow> Inl (OSError (''No such file or directory: '' @ src)))"

text \<open>
  \<^verbatim>\<open>_ensure_keys_in_switch_dir\<close>. The result carries the state reached when an
  exception is raised.
\<close>

definition ensure_keys_in_switch_dir ::
  "nsz_service \<Rightarrow> os_state \<Rightarrow> py_exception option \<times> os_state" where
  "ensure_keys_in_switch_dir svc os =
     (case keys_path svc of
        None \<Rightarrow> (None, os)
      | Some kp \<Rightarrow>
          if kp = [] then (None, os)
          else
            (let switch_dir = expanduser os ''~/.switch'';
                 expected_keys = os_path_join switch_dir ''prod.keys''
             in case (if \<not> os_path_exists os switch_dir then os_makedirs os switch_dir
                      else Inr os) of
                  Inl e \<Rightarrow> (Some e, os)
                | Inr os1 \<Rightarrow>
                    if \<not> os_path_exists os1 expected_keys \<and> kp \<noteq> expected_keys
                    then (case shutil_copy2 os1 kp expected_keys of
                            Inl e \<Rightarrow> (Some e, os1)
                          | Inr os2 \<Rightarrow> (None, os2))
                    else (None, os1)))"

text \<open>
  \<^verbatim>\<open>is_available\<close>. The module imports \<^verbatim>\<open>nsz\<close> when it is loaded, so the import in
  this method succeeds whenever the method runs.
\<close>

definition is_available :: "nsz_service \<Rightarrow> os_state \<Rightarrow> bool" where
  "is_available svc os \<longleftrightarrow>
     (case keys_path svc of None \<Rightarrow> False | Some kp \<Rightarrow> os_path_isfile os kp)"

text \<open>
  The \<^verbatim>\<open>nsz\<close> library is not part of the repository: \<^verbatim>\<open>decompress(filePath,
  outputDir, False)\<close> is a parameter, any function from the two absolute paths and the
  process state to the exception it raises, if any, and the state it leaves.
\<close>

type_synonym ext_lib = "string \<Rightarrow> string \<Rightarrow> os_state \<Rightarrow> py_exception option \<times> os_state"

text \<open>The \<^verbatim>\<open>try\<close> block of \<^verbatim>\<open>decompress_nsz\<close>; \<open>Inl\<close> is an exception raised in it.\<close>

definition decompress_nsz_try ::
  "ext_lib \<Rightarrow> nsz_service \<Rightarrow> os_state \<Rightarrow> string \<Rightarrow> string
     \<Rightarrow> (py_exception + bool \<times> string) \<times> os_state" where
  "decompress_nsz_try decompress svc os nsz_file_path output_dir =
     (case os_chdir os output_dir of
        Inl e \<Rightarrow> (Inl e, os)
      | Inr os1 \<Rightarrow>
          (case ensure_keys_in_switch_dir svc os1 of
             (Some e, os2) \<Rightarrow> (Inl e, os2)
           | (None, os2) \<Rightarrow>
               (let nsz_path = resolve os2 nsz_file_path;
                    output_path = resolve os2 output_dir
                in case decompress nsz_path output_path os2 of
                     (Some e, os3) \<Rightarrow> (Inl e, os3)
                   | (None, os3) \<Rightarrow>
                       (let nsz_filename = os_path_basename nsz_file_path;
                            expected_nsp = str_replace ''.nsz'' ''.nsp'' nsz_filename;
                            nsp_path = os_path_join output_dir expected_nsp
                        in if os_path_isfile os3 nsp_path
                           then (Inr (True, ''Successfully decompressed to '' @ nsp_path), os3)
                           else (case os_listdir os3 output_dir of
                                   Inl e \<Rightarrow> (Inl e, os3)
                                 | Inr names \<Rightarrow>
                                     (let nsp_files = filter (\<lambda>f. endswith f ''.nsp'') names
                                      in if nsp_files \<noteq> []
                                         then (Inr (True, ''Successfully decompressed. Created: ''
                                                      @ str_join '', '' nsp_files), os3)
                                         else (Inr (False,
                                                 ''Decompression completed but no NSP files found''),
                                               os3)))))))"

text \<open>
  \<^verbatim>\<open>decompress_nsz\<close>: the three early returns, \<^verbatim>\<open>os.makedirs\<close> (an exception of
  which leaves the function), the \<^verbatim>\<open>try\<close> block with its \<^verbatim>\<open>except\<close>, and the
  \<^verbatim>\<open>finally\<close> block, where a failing \<^verbatim>\<open>os.chdir\<close> replaces the result.
\<close>

definition decompress_nsz ::
  "ext_lib \<Rightarrow> nsz_service \<Rightarrow> os_state \<Rightarrow> string \<Rightarrow> string
     \<Rightarrow> (py_exception + bool \<times> string) \<times> os_state" where
  "decompress_nsz decompress svc os nsz_file_path output_dir =
     (if \<not> is_available svc os
      then (Inr (False, ''NSZ service not available. Check nsz library and keys file.''), os)
      else if \<not> os_path_isfile os nsz_file_path
      then (Inr (False, ''NSZ file not found: '' @ nsz_file_path), os)
      else if \<not> endswith (str_lower nsz_file_path) ''.nsz''
      then (Inr (False, ''File is not an NSZ file''), os)
      else (case os_makedirs os output_dir of
              Inl e \<Rightarrow> (Inl e, os)
            | Inr os0 \<Rightarrow>
                (let original_cwd = cwd os0;
                     original_argv = argv os0
                 in case decompress_nsz_try decompress svc os0 nsz_file_path output_dir of
                      (r, os1) \<Rightarrow>
                        (let result = (case r of
                                         Inl e \<Rightarrow> (False, ''NSZ decompression failed: '' @ str_exn e)
                                       | Inr v \<Rightarrow> v)
                         in case os_chdir os1 original_cwd of
                              Inl e \<Rightarrow> (Inl e, os1)
                            | Inr os2 \<Rightarrow> (Inr result, os2\<lparr>argv := original_argv\<rparr>)))))"

section \<open>Post-processing and the worker (download\_service.py)\<close>

text \<open>
  \<^verbatim>\<open>_handle_post_download\<close>. \<open>extract_zip\<close> stands for
  \<^verbatim>\<open>ZipFile(zip_path).extractall(destination)\<close>, a parameter like \<open>decompress\<close>.
  \<open>Inl\<close> is the \<^verbatim>\<open>KeyError\<close> of the registry lookup, the one exception the method
  does not catch.
\<close>

definition handle_post_download ::
  "ext_lib \<Rightarrow> ext_lib \<Rightarrow> string \<Rightarrow> download_service \<times> os_state
     \<Rightarrow> py_exception + download_service \<times> os_state" where
  "handle_post_download extract_zip decompress task_id = (\<lambda>(s, os).
     (case map_of (downloads s) task_id of
        None \<Rightarrow> Inl (KeyError task_id)
      | Some task \<Rightarrow>
          (let output_path = get_output_path task;
               zip_failed = (\<lambda>e os'.
                 (notify_status
                    (update_task s task_id
                       (\<lambda>t. t\<lparr>error_message := ''ZIP extraction failed: '' @ str_exn e\<rparr>))
                    task_id ''extract_failed'' (''ZIP extraction failed: '' @ str_exn e), os'));
               nsz_failed = (\<lambda>s' m os'.
                 (notify_status
                    (update_task s' task_id
                       (\<lambda>t. t\<lparr>error_message := ''NSZ decompression failed: '' @ m\<rparr>))
                    task_id ''decompress_failed'' (''NSZ decompression failed: '' @ m), os'))
           in if endswith (str_lower output_path) ''.zip''
              then (case extract_zip output_path (destination task) os of
                      (Some e, os1) \<Rightarrow> Inr (zip_failed e os1)
                    | (None, os1) \<Rightarrow>
                        (case os_remove os1 output_path of
                           Inl e \<Rightarrow> Inr (zip_failed e os1)
                         | Inr os2 \<Rightarrow>
                             Inr (notify_status s task_id ''extracted''
                                    (''Extracted ZIP: '' @ filename task), os2)))
              else if endswith (str_lower output_path) ''.nsz''
              then (let s1 = notify_status s task_id ''decompressing''
                               (''Decompressing NSZ: '' @ filename task)
                    in case decompress_nsz decompress (nsz s1) os output_path (destination task) of
                         (Inl e, os1) \<Rightarrow> Inr (nsz_failed s1 (str_exn e) os1)
                       | (Inr (success, message), os1) \<Rightarrow>
                           if success
                           then Inr (notify_status s1 task_id ''decompressed''
                                       (''Decompressed NSZ: '' @ message), os1)
                           else Inr (nsz_failed s1 message os1))
              else Inr (s, os))))"

subsection \<open>The worker\<close>

text \<open>
  What another thread did to the worker's task since the worker last looked at it:
  nothing, \<^verbatim>\<open>pause_download\<close> or \<^verbatim>\<open>cancel_download\<close>. \<open>apply_actor\<close> is
  their effect on the fields of the task object the worker holds; the removal of a
  cancelled task from the registry is not modelled inside a worker run.
\<close>

datatype actor = NoActor | UserPause | UserCancel

fun apply_actor :: "actor \<Rightarrow> download_task \<Rightarrow> download_task" where
  "apply_actor NoActor t = t"
| "apply_actor UserPause t = (if status t = Downloading then t\<lparr>status := Paused\<rparr> else t)"
| "apply_actor UserCancel t =
     (if status t = Downloading
      then t\<lparr>status := Failed, error_message := ''Cancelled by user''\<rparr> else t)"

text \<open>
  One turn of \<^verbatim>\<open>response.iter_content\<close>: what the other threads did meanwhile, the
  chunk the iterator yields or the exception it raises, and the reading of
  \<^verbatim>\<open>time.time()\<close> at line 304.
\<close>

record tick =
  actor :: actor
  piece :: "py_exception + string"
  clock :: real

record http_response =
  status_error :: "py_exception option"
  content_length :: "string option"
  ticks :: "tick list"

text \<open>
  The world a worker run meets: the server (from the URL and the request headers to an
  exception of \<^verbatim>\<open>requests.get\<close> or a response), the clock readings at lines 256, 290,
  322 and 336, what another thread did between the end of the stream and line 318, and
  the two libraries.
\<close>

record worker_env =
  server :: "string \<Rightarrow> (string \<times> string) list \<Rightarrow> py_exception + http_response"
  t_start :: real
  t_loop :: real
  t_done :: real
  t_failed :: real
  last_actor :: actor
  extract_zip :: ext_lib
  decompress :: ext_lib

record loop_state =
  l_task :: download_task
  l_os :: os_state
  last_update :: real
  bytes_since_update :: int
  notified :: "download_task list"

text \<open>Lines 299 to 315: the chunk is written and counted, then the telemetry.\<close>

definition chunk_step :: "string \<Rightarrow> string \<Rightarrow> real \<Rightarrow> loop_state \<Rightarrow> loop_state" where
  "chunk_step output_path chunk current_time ls =
     (let os1 = file_write (l_os ls) output_path chunk;
          task1 = (l_task ls)\<lparr>downloaded_bytes :=
                                 downloaded_bytes (l_task ls) + int (length chunk)\<rparr>;
          bsu = bytes_since_update ls + int (length chunk)
      in if current_time - last_update ls \<ge> 0.5
         then (let time_diff = current_time - last_update ls;
                   task2 = task1\<lparr>speed := real_of_int bsu / time_diff\<rparr>;
                   task3 = (if total_bytes task2 > 0
                            then task2\<lparr>progress := (real_of_int (downloaded_bytes task2)
                                                     / real_of_int (total_bytes task2)) * 100\<rparr>
                            else task2)
               in ls\<lparr>l_task := task3, l_os := os1, last_update := current_time,
                      bytes_since_update := 0, notified := notified ls @ [task3]\<rparr>)
         else ls\<lparr>l_task := task1, l_os := os1, bytes_since_update := bsu\<rparr>)"

text \<open>
  Lines 294 to 315. The result says whether the loop was left by an exception of the
  iterator; it ends at the end of the stream or at the \<^verbatim>\<open>break\<close>.
\<close>

fun chunk_loop :: "string \<Rightarrow> tick list \<Rightarrow> loop_state \<Rightarrow> py_exception option \<times> loop_state" where
  "chunk_loop output_path [] ls = (None, ls)"
| "chunk_loop output_path (tk # tks) ls =
     (let ls1 = ls\<lparr>l_task := apply_actor (actor tk) (l_task ls)\<rparr>
      in case piece tk of
           Inl e \<Rightarrow> (Some e, ls1)
         | Inr chunk \<Rightarrow>
             if status (l_task ls1) \<noteq> Downloading then (None, ls1)
             else if chunk \<noteq> [] then
               chunk_loop output_path tks (chunk_step output_path chunk (clock tk) ls1)
             else chunk_loop output_path tks ls1)"

text \<open>
  Lines 317 to 331, entered at the normal end of the loop. \<open>Some e\<close> is an exception
  leaving \<^verbatim>\<open>_handle_post_download\<close>.
\<close>

definition finish_download ::
  "string \<Rightarrow> worker_env \<Rightarrow> download_task \<Rightarrow> download_service \<times> os_state
     \<Rightarrow> py_exception option \<times> download_service \<times> os_state" where
  "finish_download task_id env task = (\<lambda>(s, os).
     if status task = Downloading
     then if total_bytes task = 0 \<or> downloaded_bytes task \<ge> total_bytes task
          then (let s1 = update_task s task_id
                           (\<lambda>t. t\<lparr>status := Completed, progress := 100,
                                  end_time := Some (t_done env)\<rparr>)
                in case handle_post_download (extract_zip env) (decompress env) task_id (s1, os) of
                     Inl e \<Rightarrow> (Some e, s1, os)
                   | Inr (s2, os2) \<Rightarrow>
                       (None, notify_status s2 task_id ''completed''
                                (''Download completed: '' @ filename task), os2))
          else (None,
                notify_status
                  (update_task s task_id
                     (\<lambda>t. t\<lparr>status := Failed, error_message := ''Download incomplete''\<rparr>))
                  task_id ''failed'' ''Download incomplete'', os)
     else (None, s, os))"

text \<open>
  Lines 261 to 331, the \<^verbatim>\<open>try\<close> block. \<open>task\<close> is the task object the worker holds;
  it is written back to the registry entry when the loop is over.
\<close>

definition worker_body ::
  "string \<Rightarrow> worker_env \<Rightarrow> download_task \<Rightarrow> download_service \<times> os_state
     \<Rightarrow> py_exception option \<times> download_service \<times> os_state" where
  "worker_body task_id env task = (\<lambda>(s, os).
     (let output_path = get_output_path task in
      case (if os_path_exists os output_path then os_path_getsize os output_path else Inr 0) of
        Inl e \<Rightarrow> (Some e, s, os)
      | Inr resume_pos \<Rightarrow>
          (let headers = (if resume_pos > 0
                          then [(''Range'', ''bytes='' @ str_int resume_pos @ ''-'')] else [])
           in case server env (url task) headers of
                Inl e \<Rightarrow> (Some e, s, os)
              | Inr response \<Rightarrow>
                  (case status_error response of
                     Some e \<Rightarrow> (Some e, s, os)
                   | None \<Rightarrow>
                       (case (case content_length response of
                                None \<Rightarrow> Some 0
                              | Some v \<Rightarrow> map_option (\<lambda>n. n + resume_pos) (py_int 10 v)) of
                          None \<Rightarrow> (Some (ValueError ''invalid literal for int() with base 10''), s, os)
                        | Some total_size \<Rightarrow>
                            (let task1 = task\<lparr>total_bytes := total_size,
                                              downloaded_bytes := resume_pos\<rparr>;
                                 s1 = update_task s task_id (\<lambda>t. task1)
                             in case open_write os output_path (resume_pos > 0) of
                                  Inl e \<Rightarrow> (Some e, s1, os)
                                | Inr os1 \<Rightarrow>
                                    (case chunk_loop output_path (ticks response)
                                            \<lparr>l_task = task1, l_os = os1,
                                             last_update = t_loop env,
                                             bytes_since_update = 0, notified = []\<rparr> of
                                       (exn, ls) \<Rightarrow>
                                         (let s2 = (update_task s task_id (\<lambda>t. l_task ls))
                                                     \<lparr>progress_log := progress_log s
                                                        @ map (Pair task_id) (notified ls)\<rparr>
                                          in case exn of
                                               Some e \<Rightarrow> (Some e, s2, l_os ls)
                                             | None \<Rightarrow>
                                                 (let task2 = apply_actor (last_actor env) (l_task ls);
                                                      s3 = update_task s2 task_id (\<lambda>t. task2)
                                                  in finish_download task_id env task2
                                                       (s3, l_os ls))))))))))"

text \<open>The \<^verbatim>\<open>try\<close> block with its \<^verbatim>\<open>except Exception\<close> handler, lines 260 to 337.\<close>

definition worker_try ::
  "string \<Rightarrow> worker_env \<Rightarrow> download_task \<Rightarrow> download_service \<times> os_state
     \<Rightarrow> download_service \<times> os_state" where
  "worker_try task_id env task st =
     (case worker_body task_id env task st of
        (None, s, os) \<Rightarrow> (s, os)
      | (Some e, s, os) \<Rightarrow>
          (notify_status
             (update_task s task_id
                (\<lambda>t. t\<lparr>status := Failed, error_message := str_exn e,
                       end_time := Some (t_failed env)\<rparr>))
             task_id ''failed'' (''Download failed: '' @ str_exn e), os))"

text \<open>The \<^verbatim>\<open>finally\<close> block, lines 339 to 344.\<close>

definition worker_finally :: "string \<Rightarrow> download_service \<Rightarrow> download_service" where
  "worker_finally task_id s =
     (let s1 = s\<lparr>active_downloads := active_downloads s - 1\<rparr>;
          s2 = (case map_of (downloads s1) task_id of
                  None \<Rightarrow> s1
                | Some task \<Rightarrow> notify_progress s1 task_id task)
      in start_next_pending_download s2)"

text \<open>
  \<^verbatim>\<open>_download_worker\<close>. The lookup at line 254 is outside the \<^verbatim>\<open>try\<close>: its
  \<^verbatim>\<open>KeyError\<close> ends the thread with nothing else done.
\<close>

definition download_worker ::
  "string \<Rightarrow> worker_env \<Rightarrow> download_service \<times> os_state
     \<Rightarrow> py_exception + download_service \<times> os_state" where
  "download_worker task_id env = (\<lambda>(s, os).
     (case map_of (downloads s) task_id of
        None \<Rightarrow> Inl (KeyError task_id)
      | Some task0 \<Rightarrow>
          (let task = task0\<lparr>status := Downloading, start_time := Some (t_start env)\<rparr>;
               s1 = update_task s task_id (\<lambda>t. task);
               s2 = notify_status s1 task_id ''started'' (''Starting download: '' @ filename task)
           in case worker_try task_id env task (s2, os) of
                (s3, os3) \<Rightarrow> Inr (worker_finally task_id s3, os3))))"

section \<open>Predicates used in the properties\<close>


text \<open>
  A process state as \<^verbatim>\<open>os.getcwd()\<close> sees it: the working directory is an absolute
  path and names a directory.
\<close>

definition wf_os :: "os_state \<Rightarrow> bool" where
  "wf_os os \<longleftrightarrow> startswith (cwd os) ''/'' \<and> map_of (nodes os) (cwd os) = Some Dir"

text \<open>
  Two conditions on a library: it does not remove the directory \<open>d\<close>; it leaves the
  path \<open>k\<close> as it finds it.
\<close>

definition keeps_dir :: "ext_lib \<Rightarrow> string \<Rightarrow> bool" where
  "keeps_dir lib d \<longleftrightarrow>
     (\<forall>a b os. map_of (nodes os) d = Some Dir
        \<longrightarrow> map_of (nodes (snd (lib a b os))) d = Some Dir)"

definition leaves_path :: "ext_lib \<Rightarrow> string \<Rightarrow> bool" where
  "leaves_path lib k \<longleftrightarrow>
     (\<forall>a b os. map_of (nodes (snd (lib a b os))) k = map_of (nodes os) k)"

text \<open>
  Two service states with the same counter, limit, thread tables and registry keys.
\<close>

definition same_scheduler :: "download_service \<Rightarrow> download_service \<Rightarrow> bool" where
  "same_scheduler s s' \<longleftrightarrow>
     active_downloads s' = active_downloads s
     \<and> max_concurrent_downloads s' = max_concurrent_downloads s
     \<and> threads_started s' = threads_started s
     \<and> download_threads s' = download_threads s
     \<and> map fst (downloads s') = map fst (downloads s)"

section \<open>Concrete states\<close>

text \<open>The inputs at which the properties below are evaluated.\<close>

definition os_roms :: os_state where
  "os_roms = \<lparr>nodes = [(''/'', Dir), (''/roms'', Dir)], cwd = ''/'', argv = [''app''],
              home = ''/home/u'', dir_size = 4096\<rparr>"

text \<open>A service whose three slots are taken, with one task waiting.\<close>

definition busy_service :: download_service where
  "busy_service =
     (init_service os_roms)
       \<lparr>downloads := [(''a.bin_1'', new_task ''http://h/a.bin'' ''a.bin'' ''/roms'')],
        active_downloads := 3\<rparr>"

text \<open>The service after one \<^verbatim>\<open>add_download\<close> of \<^verbatim>\<open>game.zip\<close> in second 1700000000.\<close>

definition first_added :: download_service where
  "first_added =
     (init_service os_roms)
       \<lparr>downloads := [(''game.zip_1700000000'',
                        new_task ''http://h/one/game.zip'' ''game.zip'' ''/roms'')],
        status_log := [(''game.zip_1700000000'', ''added'', ''Added download: game.zip'')]\<rparr>"




text \<open>
  A key file whose only value is \<^verbatim>\<open>0x\<close> followed by thirty hexadecimal digits.
\<close>

definition keys_os :: os_state where
  "keys_os = \<lparr>nodes = [(''/'', Dir), (''/keys'', Dir),
                       (''/keys/prod.keys'',
                        File ''header_key=0x0123456789abcdef0123456789abcd\<newline>'')],
              cwd = ''/'', argv = [''app''], home = ''/home/u'', dir_size = 4096\<rparr>"

text \<open>
  A downloaded \<^verbatim>\<open>GAME.NSZ\<close> with the keys in place, and libraries that return
  without writing anything, that move the process about before they return, and that
  do so before they raise.
\<close>

definition nsz_os :: os_state where
  "nsz_os = \<lparr>nodes = [(''/'', Dir), (''/home/u/.switch'', Dir),
                      (''/home/u/.switch/prod.keys'',
                       File ''header_key=0123456789abcdef0123456789abcdef\<newline>''),
                      (''/roms'', Dir), (''/roms/GAME.NSZ'', File ''NSZDATA'')],
             cwd = ''/'', argv = [''app''], home = ''/home/u'', dir_size = 4096\<rparr>"

definition no_output :: ext_lib where
  "no_output = (\<lambda>file_path output_dir os. (None, os))"

definition roaming_lib :: ext_lib where
  "roaming_lib = (\<lambda>file_path output_dir os.
     (None, os\<lparr>nodes := AList.update ''/roms/GAME.nsp'' (File ''NSPDATA'') (nodes os),
               cwd := ''/home/u/.switch'', argv := [''nsz'', ''-D'']\<rparr>))"

definition failing_lib :: ext_lib where
  "failing_lib = (\<lambda>file_path output_dir os.
     (Some (LibraryError ''bad header''),
      os\<lparr>cwd := ''/home/u/.switch'', argv := [''nsz'', ''-D'']\<rparr>))"





text \<open>
  Worker runs: a server that announces \<open>len\<close> bytes and delivers the given chunks, with
  no other thread interfering; a service with one slot and two pending tasks, and the
  same service once it has started the worker for \<^verbatim>\<open>a.bin_17\<close>.
\<close>

definition quiet_tick :: "string \<Rightarrow> real \<Rightarrow> tick" where
  "quiet_tick chunk now = \<lparr>actor = NoActor, piece = Inr chunk, clock = now\<rparr>"

definition body_env :: "string \<Rightarrow> tick list \<Rightarrow> worker_env" where
  "body_env len tks =
     \<lparr>server = (\<lambda>u headers. Inr \<lparr>status_error = None, content_length = Some len, ticks = tks\<rparr>),
      t_start = 100, t_loop = 100, t_done = 103, t_failed = 104, last_actor = NoActor,
      extract_zip = no_output, decompress = no_output\<rparr>"

definition ready_service :: download_service where
  "ready_service =
     (init_service os_roms)
       \<lparr>downloads := [(''a.bin_17'', new_task ''http://h/a.bin'' ''a.bin'' ''/roms''),
                      (''b.bin_17'', new_task ''http://h/b.bin'' ''b.bin'' ''/roms'')],
        max_concurrent_downloads := 1\<rparr>"

definition started_service :: download_service where
  "started_service =
     (init_service os_roms)
       \<lparr>downloads := [(''a.bin_17'', new_task ''http://h/a.bin'' ''a.bin'' ''/roms''),
                      (''b.bin_17'', new_task ''http://h/b.bin'' ''b.bin'' ''/roms'')],
        active_downloads := 1, max_concurrent_downloads := 1,
        download_threads := [(''a.bin_17'', 0)], threads_started := [''a.bin_17'']\<rparr>"


text \<open>The same task after a run with ten bytes announced and four delivered.\<close>

definition short_body_task :: download_task where
  "short_body_task =
     \<lparr>url = ''http://h/a.bin'', filename = ''a.bin'', destination = ''/roms'',
      status = Failed, progress = 40, downloaded_bytes = 4, total_bytes = 10, speed = 4,
      error_message = ''Download incomplete'', start_time = Some 100, end_time = None\<rparr>"


definition stopped_task :: download_task where
  "stopped_task = (new_task ''http://h/a.bin'' ''a.bin'' ''/roms'')
                    \<lparr>status := Downloading, downloaded_bytes := 4, total_bytes := 10,
                     start_time := Some 100\<rparr>"

definition stopped_service :: download_service where
  "stopped_service = (init_service os_roms)
                       \<lparr>downloads := [(''a.bin_17'', stopped_task)], active_downloads := 1\<rparr>"

section \<open>Admission control\<close>

lemma start_all_loop_full:
  "active_downloads s \<ge> max_concurrent_downloads s \<Longrightarrow> start_all_loop xs (n, s) = (n, s)"
  by (induction xs) auto

text \<open>
  Claim C3. \<^verbatim>\<open>start_download\<close> returns \<open>False\<close> and leaves the whole service state
  as it was (every task, the counter, the thread table) when the task id is not
  registered, when the task is not pending, or when \<open>active_downloads\<close> has reached
  \<open>max_concurrent_downloads\<close>. Hence \<^verbatim>\<open>start_all_downloads\<close> called with the counter
  at the limit starts no thread, changes nothing and returns 0.
\<close>

theorem start_download_refused:
  "(map_of (downloads s) task_id = None
      \<or> (\<exists>t. map_of (downloads s) task_id = Some t \<and> status t \<noteq> Pending)
      \<or> active_downloads s \<ge> max_concurrent_downloads s
     \<longrightarrow> start_download s task_id = (False, s))
   \<and> (active_downloads s = max_concurrent_downloads s \<longrightarrow> start_all_downloads s = (0, s))"
  by (auto simp: start_download_def start_all_downloads_def start_all_loop_full
           split: option.splits)

text \<open>
  At \<open>busy_service\<close>: a pending task is refused because the limit is reached, an unknown
  id is refused, and \<^verbatim>\<open>start_all_downloads\<close> starts nothing.
\<close>

theorem start_download_refused_witness:
  "start_download busy_service ''a.bin_1'' = (False, busy_service)
   \<and> start_download busy_service ''b.bin_1'' = (False, busy_service)
   \<and> start_all_downloads busy_service = (0, busy_service)"
  using start_download_refused [of busy_service "''a.bin_1''"]
        start_download_refused [of busy_service "''b.bin_1''"]
  by (simp add: busy_service_def init_service_def new_task_def)

section \<open>Task identity\<close>

text \<open>
  Claim C7. The claim says that any two calls of \<^verbatim>\<open>add_download\<close> return different
  ids, each with its own registry entry. The id is the file name followed by the clock
  reading cut to whole seconds, so two calls for \<^verbatim>\<open>game.zip\<close> within second
  1700000000 return the same id \<^verbatim>\<open>game.zip_1700000000\<close>, and the second call
  replaces the first task (URL \<^verbatim>\<open>http://h/one/game.zip\<close>) in the registry by its own
  (URL \<^verbatim>\<open>http://h/two/game.zip\<close>): one entry is left for two calls.
\<close>

theorem add_download_same_second:
  "add_download 1700000000.2 ''http://h/one/game.zip'' ''game.zip'' ''/roms''
     (init_service os_roms, os_roms)
     = Inr (''game.zip_1700000000'', first_added, os_roms)
   \<and> add_download 1700000000.9 ''http://h/two/game.zip'' ''game.zip'' ''/roms''
        (first_added, os_roms)
     = Inr (''game.zip_1700000000'',
            first_added
              \<lparr>downloads := [(''game.zip_1700000000'',
                               new_task ''http://h/two/game.zip'' ''game.zip'' ''/roms'')],
               status_log := [(''game.zip_1700000000'', ''added'', ''Added download: game.zip''),
                              (''game.zip_1700000000'', ''added'', ''Added download: game.zip'')]\<rparr>,
            os_roms)"
  by (simp add: add_download_def first_added_def os_roms_def init_service_def os_makedirs_def
        node_at_def resolve_def os_path_join_def startswith_def endswith_def py_trunc_def
        str_int_def str_nat.simps notify_status_def Let_def)

section \<open>Cancelling\<close>





section \<open>Key files\<close>

text \<open>
  Claim C8. The claim says that the validation accepts a file only if one of its lines
  is a pair whose value is exactly 32 hexadecimal characters. The code tests the value
  with \<^verbatim>\<open>len(key_value) == 32\<close> and \<^verbatim>\<open>int(key_value, 16)\<close>, under the comments
  \<^verbatim>\<open>128-bit key\<close> and \<^verbatim>\<open>Validate hex\<close>; the integer parser also takes a
  \<^verbatim>\<open>0x\<close> prefix. The file of \<open>keys_os\<close> has the single line
  \<^verbatim>\<open>header_key=0x0123456789abcdef0123456789abcd\<close>: its value has 32 characters, the
  second of which, \<^verbatim>\<open>x\<close>, is not a hexadecimal digit (its digit value is 33), and the
  file is accepted.
\<close>

theorem validate_keys_file_accepts_0x:
  "validate_keys_file keys_os ''/keys/prod.keys'' = True
   \<and> read_text keys_os ''/keys/prod.keys''
       = Inr ''header_key=0x0123456789abcdef0123456789abcd\<newline>''
   \<and> str_split_first (CHR ''='') ''header_key=0x0123456789abcdef0123456789abcd''
       = (''header_key'', ''0x0123456789abcdef0123456789abcd'')
   \<and> length ''0x0123456789abcdef0123456789abcd'' = 32
   \<and> digit_value (CHR ''x'') = Some 33"
  by (simp add: validate_keys_file_def keys_os_def read_text_def node_at_def resolve_def
        os_path_join_def startswith_def endswith_def str_strip_def is_space_def
        c_isspace_def valid_key_line_def str_split_first_def py_int_def digit_value_def Let_def)

section \<open>Decompression\<close>


subsection \<open>What the steps of the method leave in place\<close>

lemma resolve_absolute: "startswith d ''/'' \<Longrightarrow> resolve os d = d"
  by (simp add: resolve_def os_path_join_def)

lemma os_makedirs_existing:
  "os_makedirs os p = Inr os' \<Longrightarrow> map_of (nodes os) k = Some n \<Longrightarrow>
   map_of (nodes os') k = Some n \<and> cwd os' = cwd os \<and> argv os' = argv os"
  by (auto simp: os_makedirs_def node_at_def AList.update_conv' split: option.splits node.splits)

lemma os_chdir_nodes:
  "os_chdir os p = Inr os' \<Longrightarrow> nodes os' = nodes os \<and> argv os' = argv os"
  by (auto simp: os_chdir_def split: if_splits)

lemma shutil_copy2_existing:
  "shutil_copy2 os src dst = Inr os' \<Longrightarrow> \<not> os_path_exists os dst \<Longrightarrow>
   map_of (nodes os) k = Some n \<Longrightarrow> map_of (nodes os') k = Some n"
  by (auto simp: shutil_copy2_def Let_def AList.update_conv' os_path_isdir_def os_path_exists_def
           node_at_def split: option.splits node.splits if_splits)

lemma ensure_keys_existing:
  "ensure_keys_in_switch_dir svc os = (x, os') \<Longrightarrow> map_of (nodes os) k = Some n \<Longrightarrow>
   map_of (nodes os') k = Some n"
  by (auto simp: ensure_keys_in_switch_dir_def Let_def
           split: option.splits if_splits sum.splits
           dest: os_makedirs_existing shutil_copy2_existing)

lemma decompress_nsz_try_existing:
  assumes "decompress_nsz_try lib svc os p out = (r, os')"
    and "map_of (nodes os) k = Some n"
    and "\<And>a b os. map_of (nodes os) k = Some n \<Longrightarrow> map_of (nodes (snd (lib a b os))) k = Some n"
  shows "map_of (nodes os') k = Some n"
proof (cases "os_chdir os out")
  case (Inl e)
  with assms show ?thesis by (simp add: decompress_nsz_try_def)
next
  case (Inr os1)
  then have d1: "map_of (nodes os1) k = Some n"
    using assms(2) by (auto dest: os_chdir_nodes)
  obtain x os2 where ek: "ensure_keys_in_switch_dir svc os1 = (x, os2)"
    by (cases "ensure_keys_in_switch_dir svc os1")
  from ensure_keys_existing [OF ek d1] have d2: "map_of (nodes os2) k = Some n" .
  show ?thesis
  proof (cases x)
    case (Some e)
    with assms(1) Inr ek d2 show ?thesis by (simp add: decompress_nsz_try_def)
  next
    case None
    obtain y os3 where lb: "lib (resolve os2 p) (resolve os2 out) os2 = (y, os3)"
      by (cases "lib (resolve os2 p) (resolve os2 out) os2")
    from assms(3) [OF d2, of "resolve os2 p" "resolve os2 out"] lb
    have d3: "map_of (nodes os3) k = Some n" by simp
    from assms(1) Inr ek None lb have "os' = os3"
      by (auto simp: decompress_nsz_try_def Let_def split: option.splits if_splits sum.splits)
    with d3 show ?thesis by simp
  qed
qed

lemma decompress_nsz_existing:
  assumes "map_of (nodes os) k = Some n"
    and "\<And>a b os. map_of (nodes os) k = Some n \<Longrightarrow> map_of (nodes (snd (lib a b os))) k = Some n"
  shows "map_of (nodes (snd (decompress_nsz lib svc os p out))) k = Some n"
proof (cases "is_available svc os \<and> os_path_isfile os p \<and> endswith (str_lower p) ''.nsz''")
  case False
  with assms(1) show ?thesis by (auto simp: decompress_nsz_def)
next
  case stage: True
  show ?thesis
  proof (cases "os_makedirs os out")
    case (Inl e)
    with stage assms(1) show ?thesis by (simp add: decompress_nsz_def)
  next
    case (Inr os0)
    from os_makedirs_existing [OF Inr assms(1)] have d0: "map_of (nodes os0) k = Some n" by simp
    obtain r os1 where tr: "decompress_nsz_try lib svc os0 p out = (r, os1)"
      by (cases "decompress_nsz_try lib svc os0 p out")
    from decompress_nsz_try_existing [OF tr d0 assms(2)]
    have d1: "map_of (nodes os1) k = Some n" by simp
    from stage Inr tr d1 show ?thesis
      by (auto simp: decompress_nsz_def Let_def split: sum.splits dest: os_chdir_nodes)
  qed
qed

lemma decompress_nsz_missing:
  "\<not> os_path_isfile os p \<Longrightarrow> snd (decompress_nsz lib svc os p out) = os"
  by (simp add: decompress_nsz_def)

lemma decompress_nsz_leaves_file:
  assumes "leaves_path lib (resolve os p)"
  shows "map_of (nodes (snd (decompress_nsz lib svc os p out))) (resolve os p)
         = map_of (nodes os) (resolve os p)"
proof (cases "os_path_isfile os p")
  case False
  then show ?thesis by (simp add: decompress_nsz_missing)
next
  case True
  then obtain b where "map_of (nodes os) (resolve os p) = Some (File b)"
    by (auto simp: os_path_isfile_def node_at_def split: option.splits node.splits)
  moreover from this assms
  have "map_of (nodes (snd (decompress_nsz lib svc os p out))) (resolve os p) = Some (File b)"
    by (intro decompress_nsz_existing) (simp_all add: leaves_path_def)
  ultimately show ?thesis by simp
qed

text \<open>
  Claim C10. Every call of \<^verbatim>\<open>decompress_nsz\<close> leaves the working directory and
  \<^verbatim>\<open>sys.argv\<close> as it found them, whatever the library does to them and whether it
  returns or raises: on the early returns nothing is touched, and after the
  decompression stage the \<^verbatim>\<open>finally\<close> block restores both. It is assumed that the
  process starts in an existing directory with an absolute path, and that the library
  does not remove that directory (\<^verbatim>\<open>os.chdir\<close> in the \<^verbatim>\<open>finally\<close> block would
  raise otherwise).
\<close>

theorem decompress_nsz_restores:
  assumes "wf_os os" and "keeps_dir lib (cwd os)"
  shows "cwd (snd (decompress_nsz lib svc os nsz_file_path output_dir)) = cwd os
         \<and> argv (snd (decompress_nsz lib svc os nsz_file_path output_dir)) = argv os"
proof (cases "is_available svc os \<and> os_path_isfile os nsz_file_path
              \<and> endswith (str_lower nsz_file_path) ''.nsz''")
  case False
  then show ?thesis by (auto simp: decompress_nsz_def)
next
  case stage: True
  show ?thesis
  proof (cases "os_makedirs os output_dir")
    case (Inl e)
    with stage show ?thesis by (simp add: decompress_nsz_def)
  next
    case (Inr os0)
    from assms(1) have absolute: "startswith (cwd os) ''/''"
      and d: "map_of (nodes os) (cwd os) = Some Dir"
      by (simp_all add: wf_os_def)
    from os_makedirs_existing [OF Inr d]
    have d0: "map_of (nodes os0) (cwd os) = Some Dir" and c0: "cwd os0 = cwd os"
      and a0: "argv os0 = argv os" by simp_all
    obtain r os1 where tr: "decompress_nsz_try lib svc os0 nsz_file_path output_dir = (r, os1)"
      by (cases "decompress_nsz_try lib svc os0 nsz_file_path output_dir")
    have "map_of (nodes os1) (cwd os) = Some Dir"
      using assms(2) by (intro decompress_nsz_try_existing [OF tr d0]) (simp add: keeps_dir_def)
    then have restore: "os_chdir os1 (cwd os) = Inr (os1\<lparr>cwd := cwd os\<rparr>)"
      using absolute by (simp add: os_chdir_def os_path_isdir_def node_at_def resolve_absolute)
    from stage Inr tr restore c0 a0 show ?thesis
      by (simp add: decompress_nsz_def Let_def)
  qed
qed

text \<open>
  At \<open>nsz_os\<close>, with a library that changes the working directory and
  \<^verbatim>\<open>sys.argv\<close> and returns, and with one that changes them and raises (the call then
  reports the failure): both are \<^verbatim>\<open>/\<close> and \<^verbatim>\<open>['app']\<close> again afterwards.
\<close>

theorem decompress_nsz_restores_witness:
  "cwd (snd (decompress_nsz roaming_lib (setup_keys_environment nsz_os) nsz_os
               ''/roms/GAME.NSZ'' ''/roms'')) = ''/''
   \<and> argv (snd (decompress_nsz roaming_lib (setup_keys_environment nsz_os) nsz_os
                  ''/roms/GAME.NSZ'' ''/roms'')) = [''app'']
   \<and> cwd (snd (decompress_nsz failing_lib (setup_keys_environment nsz_os) nsz_os
                 ''/roms/GAME.NSZ'' ''/roms'')) = ''/''
   \<and> argv (snd (decompress_nsz failing_lib (setup_keys_environment nsz_os) nsz_os
                  ''/roms/GAME.NSZ'' ''/roms'')) = [''app'']
   \<and> fst (decompress_nsz failing_lib (setup_keys_environment nsz_os) nsz_os
             ''/roms/GAME.NSZ'' ''/roms'') = Inr (False, ''NSZ decompression failed: bad header'')"
proof -
  have wf: "wf_os nsz_os"
    by (simp add: wf_os_def nsz_os_def startswith_def)
  have k1: "keeps_dir roaming_lib (cwd nsz_os)"
    by (simp add: keeps_dir_def roaming_lib_def nsz_os_def AList.update_conv')
  have k2: "keeps_dir failing_lib (cwd nsz_os)"
    by (simp add: keeps_dir_def failing_lib_def)
  have raised: "fst (decompress_nsz failing_lib (setup_keys_environment nsz_os) nsz_os
                       ''/roms/GAME.NSZ'' ''/roms'')
                = Inr (False, ''NSZ decompression failed: bad header'')"
    by (simp add: decompress_nsz_def decompress_nsz_try_def failing_lib_def nsz_os_def
          setup_keys_environment_def expanduser_def rstrip_slash_def
          is_available_def os_path_isfile_def os_path_exists_def os_path_isdir_def node_at_def
          resolve_def os_path_join_def startswith_def endswith_def str_lower_def lower_char_def
          os_makedirs_def os_chdir_def ensure_keys_in_switch_dir_def Let_def)
  have now: "cwd nsz_os = ''/''" "argv nsz_os = [''app'']"
    by (simp_all add: nsz_os_def)
  from decompress_nsz_restores [OF wf k1] decompress_nsz_restores [OF wf k2] raised
  show ?thesis
    by (simp add: now)
qed

section \<open>Post-processing\<close>

lemma map_of_update_entry:
  "map_of (map (\<lambda>(k, t). if k = task_id then (k, f t) else (k, t)) xs) k'
   = (if k' = task_id then map_option f (map_of xs task_id) else map_of xs k')"
  by (induction xs) auto

lemma update_task_lookup:
  "map_of (downloads (update_task s task_id f)) k
   = (if k = task_id then map_option f (map_of (downloads s) task_id) else map_of (downloads s) k)"
  by (simp add: update_task_def map_of_update_entry)

lemma update_task_fields [simp]:
  "active_downloads (update_task s k f) = active_downloads s"
  "max_concurrent_downloads (update_task s k f) = max_concurrent_downloads s"
  "threads_started (update_task s k f) = threads_started s"
  "download_threads (update_task s k f) = download_threads s"
  "status_log (update_task s k f) = status_log s"
  "progress_log (update_task s k f) = progress_log s"
  "nsz (update_task s k f) = nsz s"
  "map fst (downloads (update_task s k f)) = map fst (downloads s)"
  by (auto simp: update_task_def)

lemma notify_status_fields [simp]:
  "active_downloads (notify_status s k a b) = active_downloads s"
  "max_concurrent_downloads (notify_status s k a b) = max_concurrent_downloads s"
  "threads_started (notify_status s k a b) = threads_started s"
  "download_threads (notify_status s k a b) = download_threads s"
  "downloads (notify_status s k a b) = downloads s"
  "progress_log (notify_status s k a b) = progress_log s"
  "nsz (notify_status s k a b) = nsz s"
  "status_log (notify_status s k a b) = status_log s @ [(k, a, b)]"
  by (simp_all add: notify_status_def)

text \<open>
  The outcomes of \<^verbatim>\<open>_handle_post_download\<close> for a registered task: a failure is
  reported and only the error message of the task is set, or nothing but the log changes.
\<close>

lemma handle_post_download_outcome:
  assumes reg: "map_of (downloads s) task_id = Some task"
  shows "\<exists>s' os'. handle_post_download ez dz task_id (s, os) = Inr (s', os')
           \<and> ((\<exists>kind msg. (kind = ''extract_failed'' \<or> kind = ''decompress_failed'')
                  \<and> status_log s' \<noteq> status_log s
                  \<and> last (status_log s') = (task_id, kind, msg)
                  \<and> s'\<lparr>status_log := status_log s\<rparr>
                      = update_task s task_id (\<lambda>t. t\<lparr>error_message := msg\<rparr>)
                  \<and> (leaves_path ez (resolve os (get_output_path task))
                       \<and> leaves_path dz (resolve os (get_output_path task))
                      \<longrightarrow> map_of (nodes os') (resolve os (get_output_path task))
                           = map_of (nodes os) (resolve os (get_output_path task))))
               \<or> (s'\<lparr>status_log := status_log s\<rparr> = s
                  \<and> (status_log s' = status_log s
                      \<or> fst (snd (last (status_log s'))) = ''extracted''
                      \<or> fst (snd (last (status_log s'))) = ''decompressed'')))"
proof -
  let ?out = "get_output_path task"
  show ?thesis
  proof (cases "endswith (str_lower ?out) ''.zip''")
    case zip: True
    obtain x os1 where ex: "ez ?out (destination task) os = (x, os1)"
      by (cases "ez ?out (destination task) os")
    have k1: "map_of (nodes os1) (resolve os ?out) = map_of (nodes os) (resolve os ?out)"
      if "leaves_path ez (resolve os ?out)"
      using that ex unfolding leaves_path_def by (metis snd_conv)
    show ?thesis
    proof (cases x)
      case (Some e)
      with reg zip ex k1 show ?thesis
        by (simp add: handle_post_download_def Let_def notify_status_def update_task_def)
    next
      case None
      show ?thesis
      proof (cases "os_remove os1 ?out")
        case (Inl e)
        with None reg zip ex k1 show ?thesis
          by (simp add: handle_post_download_def Let_def notify_status_def update_task_def)
      next
        case (Inr os2)
        with None reg zip ex show ?thesis
          by (simp add: handle_post_download_def Let_def notify_status_def)
      qed
    qed
  next
    case nozip: False
    show ?thesis
    proof (cases "endswith (str_lower ?out) ''.nsz''")
      case False
      with nozip reg show ?thesis
        by (simp add: handle_post_download_def Let_def)
    next
      case nsz: True
      let ?s1 = "notify_status s task_id ''decompressing'' (''Decompressing NSZ: '' @ filename task)"
      obtain r os1 where dr: "decompress_nsz dz (nsz ?s1) os ?out (destination task) = (r, os1)"
        by (cases "decompress_nsz dz (nsz ?s1) os ?out (destination task)")
      have k1: "map_of (nodes os1) (resolve os ?out) = map_of (nodes os) (resolve os ?out)"
        if "leaves_path dz (resolve os ?out)"
        using decompress_nsz_leaves_file [OF that, of "nsz ?s1" "destination task"] dr
        by simp
      show ?thesis
      proof (cases r)
        case (Inl e)
        with nozip nsz reg dr k1 show ?thesis
          by (simp add: handle_post_download_def Let_def notify_status_def update_task_def)
      next
        case (Inr v)
        obtain success message where v: "v = (success, message)" by (cases v)
        show ?thesis
        proof (cases success)
          case True
          with Inr v nozip nsz reg dr show ?thesis
            by (simp add: handle_post_download_def Let_def notify_status_def)
        next
          case False
          with Inr v nozip nsz reg dr k1 show ?thesis
            by (simp add: handle_post_download_def Let_def notify_status_def update_task_def)
        qed
      qed
    qed
  qed
qed

lemma same_scheduler_refl [simp]: "same_scheduler s s"
  by (simp add: same_scheduler_def)

lemma same_scheduler_trans:
  "same_scheduler s s1 \<Longrightarrow> same_scheduler s1 s2 \<Longrightarrow> same_scheduler s s2"
  by (simp add: same_scheduler_def)

lemma same_scheduler_update_task [simp]: "same_scheduler s (update_task s k f)"
  by (simp add: same_scheduler_def)

lemma same_scheduler_notify_status [simp]:
  "same_scheduler s (notify_status s' k a b) = same_scheduler s s'"
  by (simp add: same_scheduler_def)

lemma same_scheduler_log:
  "same_scheduler s (s'\<lparr>status_log := l\<rparr>) = same_scheduler s s'"
  "same_scheduler s (s'\<lparr>progress_log := l'\<rparr>) = same_scheduler s s'"
  by (simp_all add: same_scheduler_def)

text \<open>The task after post-processing: the same but for its error message.\<close>

lemma handle_post_download_task:
  assumes reg: "map_of (downloads s) task_id = Some task"
    and run: "handle_post_download ez dz task_id (s, os) = Inr (s', os')"
  shows "same_scheduler s s'
         \<and> (\<exists>msg. map_of (downloads s') task_id = Some (task\<lparr>error_message := msg\<rparr>))"
proof -
  from handle_post_download_outcome [OF reg, of ez dz os] run
  consider msg where "s'\<lparr>status_log := status_log s\<rparr>
                        = update_task s task_id (\<lambda>t. t\<lparr>error_message := msg\<rparr>)"
    | "s'\<lparr>status_log := status_log s\<rparr> = s"
    by auto
  then show ?thesis
  proof cases
    case 1
    have "same_scheduler s (s'\<lparr>status_log := status_log s\<rparr>)"
      by (simp only: 1 same_scheduler_update_task)
    moreover
    have "map_of (downloads (s'\<lparr>status_log := status_log s\<rparr>)) task_id
          = Some (task\<lparr>error_message := msg\<rparr>)"
      using reg by (simp only: 1 update_task_lookup) simp
    ultimately show ?thesis
      by (auto simp: same_scheduler_log)
  next
    case 2
    have "same_scheduler s (s'\<lparr>status_log := status_log s\<rparr>)"
      by (simp only: 2 same_scheduler_refl)
    moreover
    have "map_of (downloads (s'\<lparr>status_log := status_log s\<rparr>)) task_id = Some task"
      using reg by (simp only: 2)
    then have "map_of (downloads s') task_id = Some (task\<lparr>error_message := error_message task\<rparr>)"
      by simp
    then have "\<exists>msg. map_of (downloads s') task_id = Some (task\<lparr>error_message := msg\<rparr>)"
      by (rule exI)
    ultimately show ?thesis
      by (simp add: same_scheduler_log)
  qed
qed



section \<open>The worker\<close>

subsection \<open>The byte counters in the chunk loop\<close>


lemma apply_actor_bytes [simp]:
  "downloaded_bytes (apply_actor a t) = downloaded_bytes t"
  "total_bytes (apply_actor a t) = total_bytes t"
  by (cases a; simp)+






lemmas worker_eval = download_worker_def worker_try_def worker_body_def worker_finally_def
  finish_download_def handle_post_download_def chunk_step_def
  update_task_def notify_status_def notify_progress_def start_next_pending_download_def
  start_download_def get_output_path_def os_path_join_def startswith_def endswith_def
  os_path_exists_def os_path_getsize_def node_at_def resolve_def open_write_def file_write_def
  str_lower_def lower_char_def py_int_def c_isspace_def digit_value_def
  new_task_def init_service_def setup_keys_environment_def expanduser_def rstrip_slash_def
  started_service_def os_roms_def body_env_def quiet_tick_def no_output_def
  Let_def




subsection \<open>The end of the stream\<close>

text \<open>
  Claim C2, as stated, fails on the text of the message: a stream that ends after four
  of ten announced bytes leaves the task failed with the error message
  \<^verbatim>\<open>Download incomplete\<close>, which is not \<^verbatim>\<open>download incomplete\<close>.
\<close>

theorem incomplete_message_capitalised:
  "map_of (downloads (fst (projr (download_worker ''a.bin_17''
       (body_env ''10'' [quiet_tick ''abcd'' 101]) (started_service, os_roms))))) ''a.bin_17''
     = Some short_body_task
   \<and> status short_body_task = Failed
   \<and> error_message short_body_task = ''Download incomplete''
   \<and> error_message short_body_task \<noteq> ''download incomplete''"
  by (simp add: worker_eval short_body_task_def)

text \<open>
  Claim C2, amended. When the worker reaches the normal end of the stream with its task
  (registered, as the worker found it) still \<open>Downloading\<close>, the lines after the loop
  return normally, and the task is \<open>Completed\<close> if and only if \<open>total_bytes\<close> is 0 or
  \<open>downloaded_bytes\<close> has reached \<open>total_bytes\<close>. In that case the progress is 100, the
  end time is set, post-processing has run on the completed task, and the
  \<^verbatim>\<open>completed\<close> event follows it. Otherwise the task is \<open>Failed\<close> with the error
  message \<^verbatim>\<open>Download incomplete\<close>, the \<^verbatim>\<open>failed\<close> event carries the same message,
  and nothing else changes.
\<close>

theorem finish_download_decision:
  assumes reg: "map_of (downloads s) task_id = Some task"
    and dl: "status task = Downloading"
  shows "\<exists>s' os' t'. finish_download task_id env task (s, os) = (None, s', os')
           \<and> map_of (downloads s') task_id = Some t'
           \<and> (status t' = Completed
                \<longleftrightarrow> total_bytes task = 0 \<or> downloaded_bytes task \<ge> total_bytes task)
           \<and> (if total_bytes task = 0 \<or> downloaded_bytes task \<ge> total_bytes task
               then status t' = Completed \<and> end_time t' = Some (t_done env) \<and> progress t' = 100
                    \<and> (\<exists>sp. handle_post_download (extract_zip env) (decompress env) task_id
                               (update_task s task_id
                                  (\<lambda>t. t\<lparr>status := Completed, progress := 100,
                                         end_time := Some (t_done env)\<rparr>), os) = Inr (sp, os')
                             \<and> s' = notify_status sp task_id ''completed''
                                      (''Download completed: '' @ filename task))
               else status t' = Failed \<and> error_message t' = ''Download incomplete''
                    \<and> os' = os
                    \<and> s' = notify_status
                             (update_task s task_id
                                (\<lambda>t. t\<lparr>status := Failed, error_message := ''Download incomplete''\<rparr>))
                             task_id ''failed'' ''Download incomplete'')"
proof (cases "total_bytes task = 0 \<or> downloaded_bytes task \<ge> total_bytes task")
  case full: True
  let ?done = "\<lambda>t. t\<lparr>status := Completed, progress := 100, end_time := Some (t_done env)\<rparr>"
  let ?s1 = "update_task s task_id ?done"
  have reg1: "map_of (downloads ?s1) task_id = Some (?done task)"
    using reg by (simp add: update_task_lookup)
  from handle_post_download_outcome [OF reg1, of "extract_zip env" "decompress env" os]
  obtain sp os' where
    run: "handle_post_download (extract_zip env) (decompress env) task_id (?s1, os) = Inr (sp, os')"
    by blast
  from handle_post_download_task [OF reg1 run]
  obtain msg where t': "map_of (downloads sp) task_id = Some ((?done task)\<lparr>error_message := msg\<rparr>)"
    by blast
  from full dl run t' show ?thesis
    by (simp add: finish_download_def)
next
  case short: False
  with reg dl show ?thesis
    by (simp add: finish_download_def update_task_lookup)
qed

text \<open>
  At \<open>stopped_service\<close>, whose task has four of ten bytes: the task fails with the
  message, and the \<^verbatim>\<open>failed\<close> event is the last one.
\<close>

theorem finish_download_decision_witness:
  "\<exists>s' os' t'. finish_download ''a.bin_17'' (body_env ''10'' []) stopped_task
                   (stopped_service, os_roms) = (None, s', os')
     \<and> map_of (downloads s') ''a.bin_17'' = Some t'
     \<and> status t' = Failed \<and> error_message t' = ''Download incomplete''
     \<and> last (status_log s') = (''a.bin_17'', ''failed'', ''Download incomplete'')"
proof -
  have reg: "map_of (downloads stopped_service) ''a.bin_17'' = Some stopped_task"
    by (simp add: stopped_service_def)
  have dl: "status stopped_task = Downloading"
    by (simp add: stopped_task_def)
  have short: "\<not> (total_bytes stopped_task = 0
                   \<or> downloaded_bytes stopped_task \<ge> total_bytes stopped_task)"
    by (simp add: stopped_task_def new_task_def)
  from finish_download_decision [OF reg dl, of "body_env ''10'' []" os_roms] short
  show ?thesis
    by auto
qed

subsection \<open>The end of a worker\<close>

lemma finish_download_frame:
  assumes reg: "map_of (downloads s) task_id = Some t0"
    and run: "finish_download task_id env task (s, os) = (x, s', os')"
  shows "same_scheduler s s'"
proof (cases "status task = Downloading
              \<and> (total_bytes task = 0 \<or> downloaded_bytes task \<ge> total_bytes task)")
  case False
  with run show ?thesis
    by (auto simp: finish_download_def split: if_splits)
next
  case True
  let ?s1 = "update_task s task_id
               (\<lambda>t. t\<lparr>status := Completed, progress := 100, end_time := Some (t_done env)\<rparr>)"
  from reg obtain t1 where reg1: "map_of (downloads ?s1) task_id = Some t1"
    by (simp add: update_task_lookup)
  from handle_post_download_outcome [OF reg1, of "extract_zip env" "decompress env" os]
  obtain sp osp where
    hp: "handle_post_download (extract_zip env) (decompress env) task_id (?s1, os) = Inr (sp, osp)"
    by blast
  from handle_post_download_task [OF reg1 hp] have "same_scheduler ?s1 sp" by simp
  then have "same_scheduler s sp"
    by (rule same_scheduler_trans [OF same_scheduler_update_task])
  with True run hp show ?thesis
    by (auto simp: finish_download_def)
qed

lemma worker_body_frame:
  assumes reg: "map_of (downloads s) task_id = Some t0"
    and run: "worker_body task_id env task (s, os) = (x, s', os')"
  shows "same_scheduler s s'"
proof -
  have fin: "same_scheduler s s2"
    if "finish_download task_id env tk
          (update_task ((update_task s task_id f)\<lparr>progress_log := pl\<rparr>) task_id g, osx)
        = (x2, s2, os2)" for tk f pl g osx x2 s2 os2
  proof -
    let ?sa = "update_task ((update_task s task_id f)\<lparr>progress_log := pl\<rparr>) task_id g"
    have "map_of (downloads ?sa) task_id \<noteq> None"
      using reg by (simp add: update_task_lookup)
    then obtain ta where "map_of (downloads ?sa) task_id = Some ta" by blast
    from finish_download_frame [OF this that] have "same_scheduler ?sa s2" .
    moreover have "same_scheduler s ?sa"
      by (simp add: same_scheduler_def)
    ultimately show ?thesis by (rule same_scheduler_trans [rotated])
  qed
  from run show ?thesis
    by (auto simp: worker_body_def Let_def same_scheduler_log
             split: sum.splits option.splits prod.splits if_splits
             dest: fin)
qed

lemma worker_try_frame:
  assumes reg: "map_of (downloads s) task_id = Some t0"
    and run: "worker_try task_id env task (s, os) = (s', os')"
  shows "same_scheduler s s'"
proof -
  obtain x sb osb where body: "worker_body task_id env task (s, os) = (x, sb, osb)"
    by (cases "worker_body task_id env task (s, os)")
  from worker_body_frame [OF reg body] have "same_scheduler s sb" .
  with run body show ?thesis
    by (cases x) (auto simp: worker_try_def same_scheduler_def)
qed

lemma first_pending_none:
  "first_pending xs = None \<longleftrightarrow> (\<forall>k t. (k, t) \<in> set xs \<longrightarrow> status t \<noteq> Pending)"
  by (induction xs) (auto split: if_splits)

lemma first_pending_some:
  "distinct (map fst xs) \<Longrightarrow> first_pending xs = Some k \<Longrightarrow>
   \<exists>t. map_of xs k = Some t \<and> status t = Pending"
proof (induction xs)
  case Nil
  then show ?case by simp
next
  case (Cons p xs)
  obtain k' t' where p: "p = (k', t')" by (cases p)
  show ?case
  proof (cases "status t' = Pending")
    case True
    with Cons.prems p show ?thesis by simp
  next
    case False
    with Cons.prems p have fp: "first_pending xs = Some k" and d: "distinct (map fst xs)"
      by simp_all
    from Cons.IH [OF d fp] obtain t where t: "map_of xs k = Some t" "status t = Pending"
      by blast
    then have "k \<in> fst ` set xs" by (metis map_of_eq_None_iff option.distinct(1))
    with Cons.prems(1) p have "k \<noteq> k'" by auto
    with t p show ?thesis by simp
  qed
qed

lemma start_next_pending_effect:
  assumes "distinct (map fst (downloads s))"
  shows "\<exists>started. threads_started (start_next_pending_download s) = threads_started s @ started
           \<and> downloads (start_next_pending_download s) = downloads s
           \<and> active_downloads (start_next_pending_download s)
               = active_downloads s + int (length started)
           \<and> length started \<le> 1
           \<and> (started \<noteq> [] \<longleftrightarrow>
                 active_downloads s < max_concurrent_downloads s
                 \<and> (\<exists>k t. (k, t) \<in> set (downloads s) \<and> status t = Pending))
           \<and> set started \<subseteq> set_option (first_pending (downloads s))"
proof (cases "active_downloads s < max_concurrent_downloads s")
  case False
  then show ?thesis
    by (intro exI [of _ "[]"]) (simp add: start_next_pending_download_def)
next
  case cap: True
  show ?thesis
  proof (cases "first_pending (downloads s)")
    case None
    with cap first_pending_none [of "downloads s"] show ?thesis
      by (intro exI [of _ "[]"]) (simp add: start_next_pending_download_def)
  next
    case (Some k)
    from first_pending_some [OF assms Some]
    obtain t where t: "map_of (downloads s) k = Some t" "status t = Pending" by blast
    then have "(k, t) \<in> set (downloads s)" by (simp add: map_of_SomeD)
    with t have ex: "\<exists>k t. (k, t) \<in> set (downloads s) \<and> status t = Pending" by blast
    from cap Some t ex show ?thesis
      by (intro exI [of _ "[k]"]) (simp add: start_next_pending_download_def start_download_def)
  qed
qed

text \<open>
  Claim C4. A worker whose task is in the registry when it begins (\<^verbatim>\<open>start_download\<close>
  starts a worker only for a registered task) always ends, whether the transfer
  succeeded, stopped short or raised, and on its way out it subtracts one from
  \<open>active_downloads\<close> and starts at most one thread, for the first pending task of the
  registry; each thread started adds one to the counter again. A thread is started if
  and only if the counter, once decremented, is below the limit and some task is
  pending. The registry is a dictionary: its keys are distinct.
\<close>

theorem worker_releases_slot:
  assumes reg: "map_of (downloads s) task_id = Some task"
    and keys: "distinct (map fst (downloads s))"
  shows "\<exists>s' os' started.
           download_worker task_id env (s, os) = Inr (s', os')
           \<and> threads_started s' = threads_started s @ started
           \<and> active_downloads s' = active_downloads s - 1 + int (length started)
           \<and> length started \<le> 1
           \<and> (started \<noteq> [] \<longleftrightarrow>
                 active_downloads s - 1 < max_concurrent_downloads s
                 \<and> (\<exists>k t. (k, t) \<in> set (downloads s') \<and> status t = Pending))
           \<and> set started \<subseteq> set_option (first_pending (downloads s'))"
proof -
  let ?task = "task\<lparr>status := Downloading, start_time := Some (t_start env)\<rparr>"
  let ?s2 = "notify_status (update_task s task_id (\<lambda>t. ?task)) task_id ''started''
               (''Starting download: '' @ filename ?task)"
  obtain s3 os3 where tr: "worker_try task_id env ?task (?s2, os) = (s3, os3)"
    by (cases "worker_try task_id env ?task (?s2, os)")
  have reg2: "map_of (downloads ?s2) task_id = Some ?task"
    using reg by (simp add: update_task_lookup)
  have "same_scheduler ?s2 s3"
    using worker_try_frame [OF reg2 tr] by simp
  then have fr: "same_scheduler s s3"
    by (simp add: same_scheduler_def)
  define s5 where
    "s5 = (case map_of (downloads (s3\<lparr>active_downloads := active_downloads s3 - 1\<rparr>)) task_id of
             None \<Rightarrow> s3\<lparr>active_downloads := active_downloads s3 - 1\<rparr>
           | Some t \<Rightarrow> notify_progress (s3\<lparr>active_downloads := active_downloads s3 - 1\<rparr>) task_id t)"
  have s5: "downloads s5 = downloads s3" "active_downloads s5 = active_downloads s - 1"
    "max_concurrent_downloads s5 = max_concurrent_downloads s"
    "threads_started s5 = threads_started s"
    using fr by (auto simp: s5_def same_scheduler_def notify_progress_def split: option.splits)
  have "distinct (map fst (downloads s5))"
    using keys fr s5(1) by (simp add: same_scheduler_def)
  from start_next_pending_effect [OF this]
  obtain started where st:
    "threads_started (start_next_pending_download s5) = threads_started s5 @ started"
    "downloads (start_next_pending_download s5) = downloads s5"
    "active_downloads (start_next_pending_download s5) = active_downloads s5 + int (length started)"
    "length started \<le> 1"
    "started \<noteq> [] \<longleftrightarrow> active_downloads s5 < max_concurrent_downloads s5
                       \<and> (\<exists>k t. (k, t) \<in> set (downloads s5) \<and> status t = Pending)"
    "set started \<subseteq> set_option (first_pending (downloads s5))"
    by blast
  have run: "download_worker task_id env (s, os) = Inr (start_next_pending_download s5, os3)"
    using reg tr by (simp add: download_worker_def worker_finally_def Let_def s5_def)
  show ?thesis
    using run st s5
    by (intro exI [of _ "start_next_pending_download s5"] exI [of _ os3] exI [of _ started]) simp
qed

text \<open>
  At \<open>ready_service\<close> (one slot, two pending tasks): \<^verbatim>\<open>start_download\<close> starts the
  worker of \<^verbatim>\<open>a.bin_17\<close>, which gives \<open>started_service\<close>; the transfer stops short,
  the worker ends, the thread for \<^verbatim>\<open>b.bin_17\<close> is started and the counter is 1 again.
\<close>

theorem worker_releases_slot_witness:
  "start_download ready_service ''a.bin_17'' = (True, started_service)
   \<and> (\<exists>s' os'. download_worker ''a.bin_17'' (body_env ''10'' [quiet_tick ''abcd'' 101])
                   (started_service, os_roms) = Inr (s', os')
         \<and> threads_started s' = [''a.bin_17'', ''b.bin_17'']
         \<and> active_downloads s' = 1)"
proof -
  have go: "start_download ready_service ''a.bin_17'' = (True, started_service)"
    by (simp add: start_download_def ready_service_def started_service_def new_task_def
          init_service_def)
  have reg: "map_of (downloads started_service) ''a.bin_17''
             = Some (new_task ''http://h/a.bin'' ''a.bin'' ''/roms'')"
    by (simp add: started_service_def)
  have keys: "distinct (map fst (downloads started_service))"
    by (simp add: started_service_def)
  have ev: "threads_started (fst (projr (download_worker ''a.bin_17''
               (body_env ''10'' [quiet_tick ''abcd'' 101]) (started_service, os_roms))))
            = [''a.bin_17'', ''b.bin_17'']"
    by (simp add: worker_eval)
  have now: "threads_started started_service = [''a.bin_17'']"
    "active_downloads started_service = 1"
    by (simp_all add: started_service_def)
  from worker_releases_slot
         [OF reg keys, of "body_env ''10'' [quiet_tick ''abcd'' 101]" os_roms]
  obtain s' os' started where
    r: "download_worker ''a.bin_17'' (body_env ''10'' [quiet_tick ''abcd'' 101])
          (started_service, os_roms) = Inr (s', os')"
    and t: "threads_started s' = threads_started started_service @ started"
    and a: "active_downloads s' = active_downloads started_service - 1 + int (length started)"
    by blast
  from ev r have ts: "threads_started s' = [''a.bin_17'', ''b.bin_17'']"
    by simp
  with t now have "started = [''b.bin_17'']"
    by simp
  with a now have "active_downloads s' = 1"
    by simp
  with r ts go show ?thesis
    by blast
qed

end
